theory Spec2Isabelle
  imports Complex_Main
begin

section \<open>Go models (internal/models)\<close>

text \<open>
  The persistence backend stores four tables in PostgreSQL. Identifiers are Go
  \<open>int64\<close> values read back from \<open>SERIAL\<close> columns; they are modelled as
  \<open>int\<close>. Timestamps are modelled as an integer count of microseconds, the
  resolution of a PostgreSQL \<open>TIMESTAMP\<close>. A price is a Go \<open>float64\<close> on the Go
  side and a \<open>NUMERIC(10, 2)\<close> in the table; both are modelled by the rational
  number they denote (NaN and the infinities are outside the model). A Go
  pointer field of an update request is an \<open>option\<close>: \<open>nil\<close> is \<open>None\<close>.
\<close>

record Product =
  p_ID :: int
  p_BrandName :: string
  p_ShoeName :: string
  p_BaseURL :: string
  p_CreatedAt :: int

record UpdateProductRequest =
  upr_BrandName :: "string option"
  upr_ShoeName :: "string option"
  upr_BaseURL :: "string option"

record Country =
  c_ID :: int
  c_CountryCode :: string
  c_Currency :: string

record UpdateCountryRequest =
  ucr_CountryCode :: "string option"
  ucr_Currency :: "string option"

record ProductVariant =
  v_ID :: int
  v_ProductID :: int
  v_Color :: string
  v_ShoeSize :: string
  v_UniqueIdentifier :: string

record CreateProductVariantRequest =
  cvr_ProductID :: int
  cvr_Color :: string
  cvr_ShoeSize :: string

record UpdateProductVariantRequest =
  uvr_Color :: "string option"
  uvr_ShoeSize :: "string option"

record PriceHistory =
  ph_ID :: int
  ph_VariantID :: int
  ph_CountryID :: int
  ph_Price :: rat
  ph_IsInStock :: bool
  ph_CapturedAt :: int

record CreatePriceHistoryRequest =
  chr_VariantID :: int
  chr_CountryID :: int
  chr_Price :: rat
  chr_IsInStock :: bool

record UpdatePriceHistoryRequest =
  uhr_Price :: "rat option"
  uhr_IsInStock :: "bool option"

section \<open>The database (migrations/000001\_init\_schema.up.sql)\<close>

text \<open>
  The state of the database: the rows of the four tables and the two
  \<open>SERIAL\<close> sequences that the modelled inserts draw from. The connection is
  taken to be up: the only database errors are the ones PostgreSQL raises for a
  statement.
\<close>

record database =
  products :: "Product list"
  countries :: "Country list"
  product_variants :: "ProductVariant list"
  price_history :: "PriceHistory list"
  product_variants_id_seq :: int
  price_history_id_seq :: int

datatype pg_error =
    SyntaxError
  | UndefinedTable
  | UndefinedColumn
  | ParameterMismatch
  | DatatypeMismatch
  | StringTooLong
  | NumericOverflow
  | NumericValueOutOfRange
  | UniqueViolation
  | ForeignKeyViolation

text \<open>A Go error value built by \<open>fmt.Errorf\<close>: the message, and the wrapped
  database error where the format ends in \<open>%w\<close>.\<close>

datatype go_error = Errorf string "pg_error option"

text \<open>The arguments a repository passes with a statement.\<close>

datatype sql_value = VInt int | VText string | VNumeric rat | VBool bool | VTimestamp int

subsection \<open>Column types\<close>

text \<open>\<open>INTEGER\<close>: a signed integer of 32 bits. A Go \<open>int64\<close> that is passed
  for a parameter of this type and does not fit is refused by the server
  (\<open>value out of range for type integer\<close>).\<close>

definition int4 :: "int \<Rightarrow> bool" where
  "int4 i = (- (2 ^ 31) \<le> i \<and> i < 2 ^ 31)"

definition varchar :: "nat \<Rightarrow> sql_value \<Rightarrow> pg_error + sql_value" where
  "varchar n v = (case v of
       VText s \<Rightarrow> if length s \<le> n then Inr (VText s) else Inl StringTooLong
     | _ \<Rightarrow> Inl DatatypeMismatch)"

definition text_column :: "sql_value \<Rightarrow> pg_error + sql_value" where
  "text_column v = (case v of VText s \<Rightarrow> Inr (VText s) | _ \<Rightarrow> Inl DatatypeMismatch)"

definition boolean_column :: "sql_value \<Rightarrow> pg_error + sql_value" where
  "boolean_column v = (case v of VBool b \<Rightarrow> Inr (VBool b) | _ \<Rightarrow> Inl DatatypeMismatch)"

text \<open>\<open>NUMERIC(10, 2)\<close>: the value is rounded to two decimals, half away from
  zero, and must then have at most eight digits before the point.\<close>

definition round_half_away :: "rat \<Rightarrow> int" where
  "round_half_away x = (if 0 \<le> x then \<lfloor>x + 1 / 2\<rfloor> else - \<lfloor>- x + 1 / 2\<rfloor>)"

definition numeric_10_2_of :: "rat \<Rightarrow> pg_error + rat" where
  "numeric_10_2_of x =
     (let cents = round_half_away (x * 100)
      in if \<bar>cents\<bar> < 10 ^ 10 then Inr (of_int cents / 100) else Inl NumericOverflow)"

definition numeric_10_2 :: "sql_value \<Rightarrow> pg_error + sql_value" where
  "numeric_10_2 v = (case v of
       VNumeric x \<Rightarrow> (case numeric_10_2_of x of Inl e \<Rightarrow> Inl e | Inr y \<Rightarrow> Inr (VNumeric y))
     | _ \<Rightarrow> Inl DatatypeMismatch)"

subsection \<open>Reading a statement\<close>

text \<open>
  The update statements are assembled at run time, so the model keeps them as
  text and reads them the way the server does: into tokens, then by the grammar
  of \<open>UPDATE table [alias] SET column = $n [, ...] WHERE id = $n RETURNING
  column [, ...]\<close>, the one family of statements the repositories build.
\<close>

datatype token = Word string | Param nat | Comma | Equals | Junk char

definition is_digit :: "char \<Rightarrow> bool" where
  "is_digit c = (c \<in> set ''0123456789'')"

definition is_word_char :: "char \<Rightarrow> bool" where
  "is_word_char c =
     (c \<in> set ''abcdefghijklmnopqrstuvwxyzABCDEFGHIJKLMNOPQRSTUVWXYZ0123456789_'')"

definition digit_val :: "char \<Rightarrow> nat" where
  "digit_val c = length (takeWhile (\<lambda>d. d \<noteq> c) ''0123456789'')"

definition number_of_digits :: "string \<Rightarrow> nat" where
  "number_of_digits ds = foldl (\<lambda>n c. 10 * n + digit_val c) 0 ds"

function lex :: "string \<Rightarrow> token list" where
  "lex [] = []"
| "lex (c # cs) =
     (if c = CHR '' '' then lex cs
      else if c = CHR '','' then Comma # lex cs
      else if c = CHR ''='' then Equals # lex cs
      else if c = CHR ''$'' \<and> takeWhile is_digit cs \<noteq> [] then
        Param (number_of_digits (takeWhile is_digit cs)) # lex (dropWhile is_digit cs)
      else if is_word_char c then
        Word (c # takeWhile is_word_char cs) # lex (dropWhile is_word_char cs)
      else Junk c # lex cs)"
  by pat_completeness auto
termination
  by (relation "measure length") (auto simp: length_dropWhile_le le_imp_less_Suc)

declare lex.simps [simp del]

record update_stmt =
  u_table :: string
  u_sets :: "(string \<times> nat) list"
  u_where_column :: string
  u_where_param :: nat
  u_returning :: "string list"

fun parse_set_list :: "token list \<Rightarrow> ((string \<times> nat) list \<times> token list) option" where
  "parse_set_list (Word col # Equals # Param n # Comma # rest) =
     (case parse_set_list rest of
        None \<Rightarrow> None
      | Some (sets, rest') \<Rightarrow> Some ((col, n) # sets, rest'))"
| "parse_set_list (Word col # Equals # Param n # rest) = Some ([(col, n)], rest)"
| "parse_set_list _ = None"

fun parse_column_list :: "token list \<Rightarrow> string list option" where
  "parse_column_list [Word col] = Some [col]"
| "parse_column_list (Word col # Comma # rest) =
     (case parse_column_list rest of None \<Rightarrow> None | Some cols \<Rightarrow> Some (col # cols))"
| "parse_column_list _ = None"

text \<open>After the table name the grammar admits an alias, which is any name but
  the keyword \<open>SET\<close>; the keyword \<open>SET\<close> must follow.\<close>

definition skip_alias :: "token list \<Rightarrow> token list" where
  "skip_alias ts = (case ts of
       Word a # Word s # rest \<Rightarrow> if a \<noteq> ''SET'' \<and> s = ''SET'' then Word s # rest else ts
     | _ \<Rightarrow> ts)"

definition parse_where_returning :: "string \<Rightarrow> (string \<times> nat) list \<Rightarrow> token list \<Rightarrow> update_stmt option" where
  "parse_where_returning tbl sets ts = (case ts of
       Word w # Word col # Equals # Param n # Word r # rest \<Rightarrow>
         if w = ''WHERE'' \<and> r = ''RETURNING'' then
           (case parse_column_list rest of
              None \<Rightarrow> None
            | Some cols \<Rightarrow> Some \<lparr>u_table = tbl, u_sets = sets, u_where_column = col,
                                 u_where_param = n, u_returning = cols\<rparr>)
         else None
     | _ \<Rightarrow> None)"

definition parse_update :: "token list \<Rightarrow> update_stmt option" where
  "parse_update ts = (case ts of
       Word kw # Word tbl # rest \<Rightarrow>
         if kw = ''UPDATE'' then
           (case skip_alias rest of
              Word s # rest1 \<Rightarrow>
                if s = ''SET'' then
                  (case parse_set_list rest1 of
                     None \<Rightarrow> None
                   | Some (sets, rest2) \<Rightarrow> parse_where_returning tbl sets rest2)
                else None
            | _ \<Rightarrow> None)
         else None
     | _ \<Rightarrow> None)"

subsection \<open>Running an update\<close>

text \<open>
  A table is given by its name, its column list as \<open>RETURNING\<close> must name it
  for \<open>Scan\<close> to fill the struct, the coercion of an argument to a column's
  type, the assignment of a coerced value to a column of a row, the row's
  \<open>id\<close>, and the check of the table's constraints. Arguments are coerced when
  the statement is planned, before any row is looked at. The result is the
  first row \<open>RETURNING\<close> yields, if any, and the new rows.
\<close>

definition lookup_param :: "sql_value list \<Rightarrow> nat \<Rightarrow> sql_value option" where
  "lookup_param args n = (if 1 \<le> n \<and> n \<le> length args then Some (args ! (n - 1)) else None)"

fun coerce_sets ::
  "(string \<Rightarrow> sql_value \<Rightarrow> pg_error + sql_value) \<Rightarrow> sql_value list \<Rightarrow> (string \<times> nat) list
     \<Rightarrow> pg_error + (string \<times> sql_value) list" where
  "coerce_sets coerce args [] = Inr []"
| "coerce_sets coerce args ((col, n) # sets) =
     (case lookup_param args n of
        None \<Rightarrow> Inl ParameterMismatch
      | Some v \<Rightarrow>
          (case coerce col v of
             Inl e \<Rightarrow> Inl e
           | Inr v' \<Rightarrow>
               (case coerce_sets coerce args sets of
                  Inl e \<Rightarrow> Inl e
                | Inr assigns \<Rightarrow> Inr ((col, v') # assigns))))"

definition assign_all :: "(string \<Rightarrow> sql_value \<Rightarrow> 'r \<Rightarrow> 'r) \<Rightarrow> (string \<times> sql_value) list \<Rightarrow> 'r \<Rightarrow> 'r" where
  "assign_all setcol assigns row = foldl (\<lambda>r (col, v). setcol col v r) row assigns"

definition exec_update ::
  "string \<Rightarrow> string list \<Rightarrow> (string \<Rightarrow> sql_value \<Rightarrow> pg_error + sql_value)
     \<Rightarrow> (string \<Rightarrow> sql_value \<Rightarrow> 'r \<Rightarrow> 'r) \<Rightarrow> ('r \<Rightarrow> int) \<Rightarrow> ('r list \<Rightarrow> pg_error option)
     \<Rightarrow> string \<Rightarrow> sql_value list \<Rightarrow> 'r list \<Rightarrow> pg_error + ('r option \<times> 'r list)" where
  "exec_update tname columns coerce setcol rid check query args rows =
     (case parse_update (lex query) of
        None \<Rightarrow> Inl SyntaxError
      | Some stmt \<Rightarrow>
          if u_table stmt \<noteq> tname then Inl UndefinedTable
          else if u_where_column stmt \<noteq> ''id'' \<or> u_returning stmt \<noteq> columns then Inl UndefinedColumn
          else if \<not> distinct (map fst (u_sets stmt)) then Inl SyntaxError
          else
            (case coerce_sets coerce args (u_sets stmt) of
               Inl e \<Rightarrow> Inl e
             | Inr assigns \<Rightarrow>
                 (case lookup_param args (u_where_param stmt) of
                    None \<Rightarrow> Inl ParameterMismatch
                  | Some (VInt i) \<Rightarrow>
                      (let rows' = map (\<lambda>r. if rid r = i then assign_all setcol assigns r else r) rows
                       in case check rows' of
                            Some e \<Rightarrow> Inl e
                          | None \<Rightarrow> Inr (find (\<lambda>r. rid r = i) rows', rows'))
                  | Some _ \<Rightarrow> Inl DatatypeMismatch)))"

subsection \<open>The four tables\<close>

definition integer_column :: "sql_value \<Rightarrow> pg_error + sql_value" where
  "integer_column v = (case v of VInt i \<Rightarrow> Inr (VInt i) | _ \<Rightarrow> Inl DatatypeMismatch)"

definition timestamp_column :: "sql_value \<Rightarrow> pg_error + sql_value" where
  "timestamp_column v = (case v of VTimestamp t \<Rightarrow> Inr (VTimestamp t) | _ \<Rightarrow> Inl DatatypeMismatch)"

definition products_columns :: "string list" where
  "products_columns = [''id'', ''brand_name'', ''shoe_name'', ''base_url'', ''created_at'']"

definition products_coerce :: "string \<Rightarrow> sql_value \<Rightarrow> pg_error + sql_value" where
  "products_coerce col v =
     (if col = ''id'' then integer_column v
      else if col = ''brand_name'' then varchar 255 v
      else if col = ''shoe_name'' then varchar 255 v
      else if col = ''base_url'' then text_column v
      else if col = ''created_at'' then timestamp_column v
      else Inl UndefinedColumn)"

definition products_set :: "string \<Rightarrow> sql_value \<Rightarrow> Product \<Rightarrow> Product" where
  "products_set col v r =
     (if col = ''id'' then (case v of VInt i \<Rightarrow> r\<lparr>p_ID := i\<rparr> | _ \<Rightarrow> r)
      else if col = ''brand_name'' then (case v of VText s \<Rightarrow> r\<lparr>p_BrandName := s\<rparr> | _ \<Rightarrow> r)
      else if col = ''shoe_name'' then (case v of VText s \<Rightarrow> r\<lparr>p_ShoeName := s\<rparr> | _ \<Rightarrow> r)
      else if col = ''base_url'' then (case v of VText s \<Rightarrow> r\<lparr>p_BaseURL := s\<rparr> | _ \<Rightarrow> r)
      else if col = ''created_at'' then (case v of VTimestamp t \<Rightarrow> r\<lparr>p_CreatedAt := t\<rparr> | _ \<Rightarrow> r)
      else r)"

definition products_check :: "Product list \<Rightarrow> pg_error option" where
  "products_check rows = (if distinct (map p_ID rows) then None else Some UniqueViolation)"

definition countries_columns :: "string list" where
  "countries_columns = [''id'', ''country_code'', ''currency'']"

definition countries_coerce :: "string \<Rightarrow> sql_value \<Rightarrow> pg_error + sql_value" where
  "countries_coerce col v =
     (if col = ''id'' then integer_column v
      else if col = ''country_code'' then varchar 2 v
      else if col = ''currency'' then varchar 3 v
      else Inl UndefinedColumn)"

definition countries_set :: "string \<Rightarrow> sql_value \<Rightarrow> Country \<Rightarrow> Country" where
  "countries_set col v r =
     (if col = ''id'' then (case v of VInt i \<Rightarrow> r\<lparr>c_ID := i\<rparr> | _ \<Rightarrow> r)
      else if col = ''country_code'' then (case v of VText s \<Rightarrow> r\<lparr>c_CountryCode := s\<rparr> | _ \<Rightarrow> r)
      else if col = ''currency'' then (case v of VText s \<Rightarrow> r\<lparr>c_Currency := s\<rparr> | _ \<Rightarrow> r)
      else r)"

definition countries_check :: "Country list \<Rightarrow> pg_error option" where
  "countries_check rows =
     (if distinct (map c_ID rows) \<and> distinct (map c_CountryCode rows) then None
      else Some UniqueViolation)"

definition product_variants_columns :: "string list" where
  "product_variants_columns = [''id'', ''product_id'', ''color'', ''shoe_size'', ''unique_identifier'']"

definition product_variants_coerce :: "string \<Rightarrow> sql_value \<Rightarrow> pg_error + sql_value" where
  "product_variants_coerce col v =
     (if col = ''id'' then integer_column v
      else if col = ''product_id'' then integer_column v
      else if col = ''color'' then varchar 255 v
      else if col = ''shoe_size'' then varchar 50 v
      else if col = ''unique_identifier'' then varchar 500 v
      else Inl UndefinedColumn)"

definition product_variants_set :: "string \<Rightarrow> sql_value \<Rightarrow> ProductVariant \<Rightarrow> ProductVariant" where
  "product_variants_set col v r =
     (if col = ''id'' then (case v of VInt i \<Rightarrow> r\<lparr>v_ID := i\<rparr> | _ \<Rightarrow> r)
      else if col = ''product_id'' then (case v of VInt i \<Rightarrow> r\<lparr>v_ProductID := i\<rparr> | _ \<Rightarrow> r)
      else if col = ''color'' then (case v of VText s \<Rightarrow> r\<lparr>v_Color := s\<rparr> | _ \<Rightarrow> r)
      else if col = ''shoe_size'' then (case v of VText s \<Rightarrow> r\<lparr>v_ShoeSize := s\<rparr> | _ \<Rightarrow> r)
      else if col = ''unique_identifier'' then
        (case v of VText s \<Rightarrow> r\<lparr>v_UniqueIdentifier := s\<rparr> | _ \<Rightarrow> r)
      else r)"

text \<open>\<open>PRIMARY KEY (id)\<close>, \<open>UNIQUE(product_id, color, shoe_size)\<close> and
  \<open>product_id REFERENCES products(id)\<close>.\<close>

definition product_variants_check :: "Product list \<Rightarrow> ProductVariant list \<Rightarrow> pg_error option" where
  "product_variants_check ps rows =
     (if \<not> (distinct (map v_ID rows)
            \<and> distinct (map (\<lambda>r. (v_ProductID r, v_Color r, v_ShoeSize r)) rows))
      then Some UniqueViolation
      else if \<not> list_all (\<lambda>r. v_ProductID r \<in> set (map p_ID ps)) rows then Some ForeignKeyViolation
      else None)"

definition price_history_columns :: "string list" where
  "price_history_columns =
     [''id'', ''variant_id'', ''country_id'', ''price'', ''is_in_stock'', ''captured_at'']"

definition price_history_coerce :: "string \<Rightarrow> sql_value \<Rightarrow> pg_error + sql_value" where
  "price_history_coerce col v =
     (if col = ''id'' then integer_column v
      else if col = ''variant_id'' then integer_column v
      else if col = ''country_id'' then integer_column v
      else if col = ''price'' then numeric_10_2 v
      else if col = ''is_in_stock'' then boolean_column v
      else if col = ''captured_at'' then timestamp_column v
      else Inl UndefinedColumn)"

definition price_history_set :: "string \<Rightarrow> sql_value \<Rightarrow> PriceHistory \<Rightarrow> PriceHistory" where
  "price_history_set col v r =
     (if col = ''id'' then (case v of VInt i \<Rightarrow> r\<lparr>ph_ID := i\<rparr> | _ \<Rightarrow> r)
      else if col = ''variant_id'' then (case v of VInt i \<Rightarrow> r\<lparr>ph_VariantID := i\<rparr> | _ \<Rightarrow> r)
      else if col = ''country_id'' then (case v of VInt i \<Rightarrow> r\<lparr>ph_CountryID := i\<rparr> | _ \<Rightarrow> r)
      else if col = ''price'' then (case v of VNumeric x \<Rightarrow> r\<lparr>ph_Price := x\<rparr> | _ \<Rightarrow> r)
      else if col = ''is_in_stock'' then (case v of VBool b \<Rightarrow> r\<lparr>ph_IsInStock := b\<rparr> | _ \<Rightarrow> r)
      else if col = ''captured_at'' then
        (case v of VTimestamp t \<Rightarrow> r\<lparr>ph_CapturedAt := t\<rparr> | _ \<Rightarrow> r)
      else r)"

definition price_history_check ::
  "ProductVariant list \<Rightarrow> Country list \<Rightarrow> PriceHistory list \<Rightarrow> pg_error option" where
  "price_history_check vs cs rows =
     (if \<not> distinct (map ph_ID rows) then Some UniqueViolation
      else if \<not> list_all (\<lambda>r. ph_VariantID r \<in> set (map v_ID vs)
                               \<and> ph_CountryID r \<in> set (map c_ID cs)) rows
      then Some ForeignKeyViolation
      else None)"

section \<open>The repositories (internal/repositories)\<close>

subsection \<open>fmt.Sprintf\<close>

text \<open>The verb \<open>%d\<close>: a Go integer in decimal, with a minus sign when negative.\<close>

definition digit_char :: "nat \<Rightarrow> char" where
  "digit_char n = ''0123456789'' ! n"

function digits_of :: "nat \<Rightarrow> string" where
  "digits_of n = (if n < 10 then [digit_char n] else digits_of (n div 10) @ [digit_char (n mod 10)])"
  by pat_completeness auto
termination
  by (relation "measure id") auto

definition fmt_d :: "int \<Rightarrow> string" where
  "fmt_d i = (if i < 0 then CHR ''-'' # digits_of (nat (- i)) else digits_of (nat i))"

subsection \<open>The dynamic update statement\<close>

text \<open>
  Every \<open>Update\<close> starts from \<open>(query, args, argPos)\<close> with \<open>argPos = 1\<close> and
  runs one block per optional field:
  \<^verbatim>\<open>if req.F != nil { query += fmt.Sprintf("col = $%d, ", argPos); args = append(args, *req.F); argPos++ }\<close>
  and then
  \<^verbatim>\<open>query = query[:len(query)-2] + " WHERE id = $" + fmt.Sprintf("%d", argPos); args = append(args, id); query += " RETURNING ..."\<close>
\<close>

type_synonym builder = "string \<times> sql_value list \<times> int"

definition add_clause :: "string \<Rightarrow> sql_value option \<Rightarrow> builder \<Rightarrow> builder" where
  "add_clause col field st =
     (case field of
        None \<Rightarrow> st
      | Some v \<Rightarrow>
          (case st of (query, args, argPos) \<Rightarrow>
             (query @ col @ '' = $'' @ fmt_d argPos @ '', '', args @ [v], argPos + 1)))"

definition finish_update :: "string \<Rightarrow> int \<Rightarrow> builder \<Rightarrow> string \<times> sql_value list" where
  "finish_update returning id' st =
     (case st of (query, args, argPos) \<Rightarrow>
        (take (length query - 2) query @ '' WHERE id = $'' @ fmt_d argPos @ returning,
         args @ [VInt id']))"

subsection \<open>ProductRepository\<close>

definition ProductRepository_Update_query :: "int \<Rightarrow> UpdateProductRequest \<Rightarrow> string \<times> sql_value list" where
  "ProductRepository_Update_query id' req =
     finish_update '' RETURNING id, brand_name, shoe_name, base_url, created_at'' id'
       (add_clause ''base_url'' (map_option VText (upr_BaseURL req))
         (add_clause ''shoe_name'' (map_option VText (upr_ShoeName req))
           (add_clause ''brand_name'' (map_option VText (upr_BrandName req))
             (''UPDATE products SET '', [], 1))))"

definition ProductRepository_Update ::
  "database \<Rightarrow> int \<Rightarrow> UpdateProductRequest \<Rightarrow> (go_error + Product) \<times> database" where
  "ProductRepository_Update d id' req =
     (case ProductRepository_Update_query id' req of (query, args) \<Rightarrow>
        (case exec_update ''products'' products_columns products_coerce products_set p_ID
                products_check query args (products d) of
           Inl e \<Rightarrow> (Inl (Errorf ''failed to update product: '' (Some e)), d)
         | Inr (None, rows) \<Rightarrow> (Inl (Errorf ''product not found'' None), d)
         | Inr (Some product, rows) \<Rightarrow> (Inr product, d\<lparr>products := rows\<rparr>)))"

subsection \<open>CountryRepository\<close>

definition CountryRepository_Update_query :: "int \<Rightarrow> UpdateCountryRequest \<Rightarrow> string \<times> sql_value list" where
  "CountryRepository_Update_query id' req =
     finish_update '' RETURNING id, country_code, currency'' id'
       (add_clause ''currency'' (map_option VText (ucr_Currency req))
         (add_clause ''country_code'' (map_option VText (ucr_CountryCode req))
           (''UPDATE countries SET '', [], 1)))"

definition CountryRepository_Update ::
  "database \<Rightarrow> int \<Rightarrow> UpdateCountryRequest \<Rightarrow> (go_error + Country) \<times> database" where
  "CountryRepository_Update d id' req =
     (case CountryRepository_Update_query id' req of (query, args) \<Rightarrow>
        (case exec_update ''countries'' countries_columns countries_coerce countries_set c_ID
                countries_check query args (countries d) of
           Inl e \<Rightarrow> (Inl (Errorf ''failed to update country: '' (Some e)), d)
         | Inr (None, rows) \<Rightarrow> (Inl (Errorf ''country not found'' None), d)
         | Inr (Some country, rows) \<Rightarrow> (Inr country, d\<lparr>countries := rows\<rparr>)))"

subsection \<open>ProductVariantRepository\<close>

text \<open>
  \<open>INSERT INTO product_variants (product_id, color, shoe_size, unique_identifier)
  VALUES ($1, $2, $3, $4) RETURNING ...\<close>: the arguments are coerced to the
  column types, the \<open>id\<close> is drawn from the sequence (which keeps the value
  drawn even when the insert is then refused), and the constraints are
  checked on the table with the new row.
\<close>

definition insert_product_variant ::
  "database \<Rightarrow> int \<Rightarrow> string \<Rightarrow> string \<Rightarrow> string \<Rightarrow> (pg_error + ProductVariant) \<times> database" where
  "insert_product_variant d productID color shoeSize uniqueIdentifier =
     (if length color > 255 \<or> length shoeSize > 50 \<or> length uniqueIdentifier > 500
      then (Inl StringTooLong, d)
      else
        (let row = \<lparr>v_ID = product_variants_id_seq d, v_ProductID = productID, v_Color = color,
                     v_ShoeSize = shoeSize, v_UniqueIdentifier = uniqueIdentifier\<rparr>;
             d' = d\<lparr>product_variants_id_seq := product_variants_id_seq d + 1\<rparr>
         in case product_variants_check (products d) (product_variants d @ [row]) of
              Some e \<Rightarrow> (Inl e, d')
            | None \<Rightarrow> (Inr row, d'\<lparr>product_variants := product_variants d @ [row]\<rparr>)))"

definition ProductVariantRepository_Create ::
  "database \<Rightarrow> CreateProductVariantRequest \<Rightarrow> (go_error + ProductVariant) \<times> database" where
  "ProductVariantRepository_Create d req =
     (let uniqueIdentifier =
            fmt_d (cvr_ProductID req) @ ''_'' @ cvr_Color req @ ''_'' @ cvr_ShoeSize req
      in case insert_product_variant d (cvr_ProductID req) (cvr_Color req) (cvr_ShoeSize req)
                uniqueIdentifier of
           (Inl e, d') \<Rightarrow> (Inl (Errorf ''failed to create product variant: '' (Some e)), d')
         | (Inr variant, d') \<Rightarrow> (Inr variant, d'))"

definition ProductVariantRepository_GetByID :: "database \<Rightarrow> int \<Rightarrow> go_error + ProductVariant" where
  "ProductVariantRepository_GetByID d id' =
     (case find (\<lambda>r. v_ID r = id') (product_variants d) of
        None \<Rightarrow> Inl (Errorf ''product variant not found'' None)
      | Some variant \<Rightarrow> Inr variant)"

definition ProductVariantRepository_Update_query ::
  "ProductVariant \<Rightarrow> int \<Rightarrow> UpdateProductVariantRequest \<Rightarrow> string \<times> sql_value list" where
  "ProductVariantRepository_Update_query currentVariant id' req =
     (let color = (case uvr_Color req of None \<Rightarrow> v_Color currentVariant | Some c \<Rightarrow> c);
          shoeSize = (case uvr_ShoeSize req of None \<Rightarrow> v_ShoeSize currentVariant | Some s \<Rightarrow> s);
          uniqueIdentifier = fmt_d (v_ProductID currentVariant) @ ''_'' @ color @ ''_'' @ shoeSize
      in finish_update '' RETURNING id, product_id, color, shoe_size, unique_identifier'' id'
           (add_clause ''unique_identifier'' (Some (VText uniqueIdentifier))
             (add_clause ''shoe_size'' (map_option VText (uvr_ShoeSize req))
               (add_clause ''color'' (map_option VText (uvr_Color req))
                 (''UPDATE product_variants SET '', [], 1)))))"

definition ProductVariantRepository_Update ::
  "database \<Rightarrow> int \<Rightarrow> UpdateProductVariantRequest \<Rightarrow> (go_error + ProductVariant) \<times> database" where
  "ProductVariantRepository_Update d id' req =
     (case ProductVariantRepository_GetByID d id' of
        Inl err \<Rightarrow> (Inl err, d)
      | Inr currentVariant \<Rightarrow>
          (case ProductVariantRepository_Update_query currentVariant id' req of (query, args) \<Rightarrow>
             (case exec_update ''product_variants'' product_variants_columns product_variants_coerce
                     product_variants_set v_ID (product_variants_check (products d)) query args
                     (product_variants d) of
                Inl e \<Rightarrow> (Inl (Errorf ''failed to update product variant: '' (Some e)), d)
              | Inr (None, rows) \<Rightarrow> (Inl (Errorf ''product variant not found'' None), d)
              | Inr (Some variant, rows) \<Rightarrow> (Inr variant, d\<lparr>product_variants := rows\<rparr>))))"

subsection \<open>PriceHistoryRepository\<close>

text \<open>
  \<open>INSERT INTO price_history (variant_id, country_id, price, is_in_stock,
  captured_at) VALUES ($1, $2, $3, $4, NOW()) RETURNING ...\<close>; \<open>now\<close> is the
  server's clock at the insert.
\<close>

definition insert_price_history ::
  "database \<Rightarrow> int \<Rightarrow> int \<Rightarrow> int \<Rightarrow> rat \<Rightarrow> bool \<Rightarrow> (pg_error + PriceHistory) \<times> database" where
  "insert_price_history d now variantID countryID price isInStock =
     (case numeric_10_2_of price of
        Inl e \<Rightarrow> (Inl e, d)
      | Inr stored \<Rightarrow>
          (let row = \<lparr>ph_ID = price_history_id_seq d, ph_VariantID = variantID,
                       ph_CountryID = countryID, ph_Price = stored, ph_IsInStock = isInStock,
                       ph_CapturedAt = now\<rparr>;
               d' = d\<lparr>price_history_id_seq := price_history_id_seq d + 1\<rparr>
           in case price_history_check (product_variants d) (countries d) (price_history d @ [row]) of
                Some e \<Rightarrow> (Inl e, d')
              | None \<Rightarrow> (Inr row, d'\<lparr>price_history := price_history d @ [row]\<rparr>)))"

definition PriceHistoryRepository_Create ::
  "database \<Rightarrow> int \<Rightarrow> CreatePriceHistoryRequest \<Rightarrow> (go_error + PriceHistory) \<times> database" where
  "PriceHistoryRepository_Create d now req =
     (case insert_price_history d now (chr_VariantID req) (chr_CountryID req) (chr_Price req)
             (chr_IsInStock req) of
        (Inl e, d') \<Rightarrow> (Inl (Errorf ''failed to create price history: '' (Some e)), d')
      | (Inr history, d') \<Rightarrow> (Inr history, d'))"

text \<open>
  \<open>SELECT ... FROM price_history WHERE variant_id = $1 AND country_id = $2
  ORDER BY captured_at DESC LIMIT 1\<close>: the matching rows, sorted by descending
  \<open>captured_at\<close>, cut to the first. PostgreSQL leaves the order of rows with equal
  \<open>captured_at\<close> open; the model keeps them in table order. Both parameters
  are compared with \<open>INTEGER\<close> columns, so the server takes them as
  \<open>INTEGER\<close> and refuses the statement when one does not fit.
  \<open>GetLatestPrice\<close> has three outcomes: the row, \<open>sql.ErrNoRows\<close> turned into
  \<open>price history not found\<close>, and any other error wrapped as
  \<open>failed to get latest price: %w\<close>.
\<close>

definition select_latest :: "PriceHistory list \<Rightarrow> int \<Rightarrow> int \<Rightarrow> PriceHistory list" where
  "select_latest rows variantID countryID =
     take 1 (sort_key (\<lambda>h. - ph_CapturedAt h)
       (filter (\<lambda>h. ph_VariantID h = variantID \<and> ph_CountryID h = countryID) rows))"

definition PriceHistoryRepository_GetLatestPrice :: "database \<Rightarrow> int \<Rightarrow> int \<Rightarrow> go_error + PriceHistory" where
  "PriceHistoryRepository_GetLatestPrice d variantID countryID =
     (if int4 variantID \<and> int4 countryID then
        (case select_latest (price_history d) variantID countryID of
           [] \<Rightarrow> Inl (Errorf ''price history not found'' None)
         | history # _ \<Rightarrow> Inr history)
      else Inl (Errorf ''failed to get latest price: '' (Some NumericValueOutOfRange)))"

definition PriceHistoryRepository_Update_query ::
  "int \<Rightarrow> UpdatePriceHistoryRequest \<Rightarrow> string \<times> sql_value list" where
  "PriceHistoryRepository_Update_query id' req =
     finish_update '' RETURNING id, variant_id, country_id, price, is_in_stock, captured_at'' id'
       (add_clause ''is_in_stock'' (map_option VBool (uhr_IsInStock req))
         (add_clause ''price'' (map_option VNumeric (uhr_Price req))
           (''UPDATE price_history SET '', [], 1)))"

definition PriceHistoryRepository_Update ::
  "database \<Rightarrow> int \<Rightarrow> UpdatePriceHistoryRequest \<Rightarrow> (go_error + PriceHistory) \<times> database" where
  "PriceHistoryRepository_Update d id' req =
     (case PriceHistoryRepository_Update_query id' req of (query, args) \<Rightarrow>
        (case exec_update ''price_history'' price_history_columns price_history_coerce
                price_history_set ph_ID (price_history_check (product_variants d) (countries d))
                query args (price_history d) of
           Inl e \<Rightarrow> (Inl (Errorf ''failed to update price history: '' (Some e)), d)
         | Inr (None, rows) \<Rightarrow> (Inl (Errorf ''price history not found'' None), d)
         | Inr (Some history, rows) \<Rightarrow> (Inr history, d\<lparr>price_history := rows\<rparr>)))"

section \<open>The extraction engine\<close>

text \<open>
  The scraper service (\<open>scraper/app\<close> in the project layout) is not among the
  source files at hand; its README is. The definitions of this section are
  therefore written from the design document, sentence by sentence, and what the
  document leaves to a brand's implementation is a parameter.
\<close>

datatype extraction_error = UnusableContent | MalformedURL | UnparsablePrice

datatype brand = BrandA | BrandB

record Variant =
  var_color :: string
  var_shoe_size :: string
  var_unique_identifier :: string

record PriceObservation =
  po_price :: rat
  po_is_in_stock :: bool

record ScrapeResult =
  sr_variants :: "Variant list"
  sr_price_history :: "PriceObservation list"
  sr_images :: "string list"
  sr_degraded :: bool

subsection \<open>Normalizer\<close>

definition is_space :: "char \<Rightarrow> bool" where
  "is_space c = (c \<in> set [CHR '' '', CHR 0x09, CHR 0x0A, CHR 0x0D])"

definition trim :: "string \<Rightarrow> string" where
  "trim s = rev (dropWhile is_space (rev (dropWhile is_space s)))"

definition is_alpha :: "char \<Rightarrow> bool" where
  "is_alpha c = (c \<in> set ''abcdefghijklmnopqrstuvwxyzABCDEFGHIJKLMNOPQRSTUVWXYZ'')"

definition is_scheme_char :: "char \<Rightarrow> bool" where
  "is_scheme_char c = (is_alpha c \<or> is_digit c \<or> c \<in> set ''+-.'')"

text \<open>Modelled from the spec: "if \<open>candidate\<close> already has a scheme". The
  normalizer's source is missing; a scheme is read as in a URL, a letter and
  then letters, digits, \<open>+\<close>, \<open>-\<close> or \<open>.\<close>, up to a colon.\<close>

definition has_scheme :: "string \<Rightarrow> bool" where
  "has_scheme s =
     (let p = takeWhile (\<lambda>c. c \<noteq> CHR '':'') s
      in length p < length s \<and> (case p of [] \<Rightarrow> False | c # cs \<Rightarrow> is_alpha c \<and> list_all is_scheme_char cs))"

definition base_scheme :: "string \<Rightarrow> string" where
  "base_scheme base_origin = takeWhile (\<lambda>c. c \<noteq> CHR '':'') base_origin"

definition is_protocol_relative :: "string \<Rightarrow> bool" where
  "is_protocol_relative s = (take 2 s = ''//'')"

text \<open>Modelled from the spec: "if path-relative, resolve against \<open>base_origin\<close>".
  The source is missing; the path is put after the origin, with one slash
  between them.\<close>

definition resolve_path :: "string \<Rightarrow> string \<Rightarrow> string" where
  "resolve_path base_origin candidate =
     (let origin = rev (dropWhile (\<lambda>c. c = CHR ''/'') (rev base_origin))
      in if take 1 candidate = ''/'' then origin @ candidate else origin @ ''/'' @ candidate)"

text \<open>Modelled from the spec: \<open>absolutize(candidate, base_origin)\<close> of the
  missing normalizer: "if \<open>candidate\<close> already has a scheme, return unchanged;
  if protocol-relative (starts with \<open>//\<close>), prefix the base scheme; if
  path-relative, resolve against \<open>base_origin\<close>. Fails with \<open>MalformedURL\<close>
  only if the candidate is empty or contains no resolvable path after trimming
  whitespace".\<close>

definition absolutize :: "string \<Rightarrow> string \<Rightarrow> extraction_error + string" where
  "absolutize candidate base_origin =
     (if trim candidate = [] then Inl MalformedURL
      else if has_scheme candidate then Inr candidate
      else if is_protocol_relative candidate then
        Inr (base_scheme base_origin @ '':'' @ candidate)
      else Inr (resolve_path base_origin candidate))"

text \<open>Modelled from the spec: \<open>parse_price(raw)\<close> of the missing normalizer:
  "strips all non-digit/non-decimal-separator characters (currency symbols,
  thousands separators, whitespace), then parses the remaining digits as a
  decimal. Fails with \<open>UnparsablePrice\<close> if no digits remain". The decimal
  separator is read as the point; the digits before the first point are the
  whole part and the digits after it the fraction.\<close>

definition decimal_value :: "string \<Rightarrow> rat" where
  "decimal_value s =
     (let whole = takeWhile is_digit s;
          fraction = filter is_digit (dropWhile is_digit s)
      in of_nat (number_of_digits whole) + of_nat (number_of_digits fraction) / 10 ^ length fraction)"

definition parse_price :: "string \<Rightarrow> extraction_error + rat" where
  "parse_price raw =
     (let kept = filter (\<lambda>c. is_digit c \<or> c = CHR ''.'') raw
      in if list_ex is_digit kept then Inr (decimal_value kept) else Inl UnparsablePrice)"

subsection \<open>Field extractors and brand parsers\<close>

text \<open>Modelled from the spec: the field-extractor contract of the missing
  scrapers. An extractor has a preferred tier (the structured block) and a
  fallback tier (the scan of the visible text); each takes the raw content and
  the base origin and yields candidates, the empty list when it finds none.
  The fallback tier is "used only when tier (a) yields zero candidates".\<close>

record 'c field_extractor =
  preferred_tier :: "string \<Rightarrow> string \<Rightarrow> 'c list"
  fallback_tier :: "string \<Rightarrow> string \<Rightarrow> 'c list"

definition locate :: "'c field_extractor \<Rightarrow> string \<Rightarrow> string \<Rightarrow> 'c list" where
  "locate fe raw_content base_origin =
     (case preferred_tier fe raw_content base_origin of
        [] \<Rightarrow> fallback_tier fe raw_content base_origin
      | c # cs \<Rightarrow> c # cs)"

text \<open>Modelled from the spec: a brand parser of the missing scrapers binds one
  extractor per field and the brand's way of composing an identifier, here the
  one it derives from the input URL for the fallback variant. A price candidate
  is the price text and the stock flag.\<close>

record brand_parser =
  locate_variants :: "Variant field_extractor"
  locate_prices :: "(string \<times> bool) field_extractor"
  locate_images :: "string field_extractor"
  identifier_of_url :: "string \<Rightarrow> string"

subsection \<open>Aggregator and pipeline\<close>

text \<open>Deduplication that keeps the first occurrence and the order.\<close>

fun dedup_by :: "('a \<Rightarrow> 'k) \<Rightarrow> 'k list \<Rightarrow> 'a list \<Rightarrow> 'a list" where
  "dedup_by key seen [] = []"
| "dedup_by key seen (x # xs) =
     (if key x \<in> set seen then dedup_by key seen xs else x # dedup_by key (key x # seen) xs)"

text \<open>Modelled from the spec: the aggregator's rule for variants: "if the
  extractor's final (normalized, deduplicated) list is empty, substitute one
  synthetic Variant using the pattern \<open>unknown\<close> for color/size and an
  identifier derived from the input URL, and mark the result as degraded".\<close>

definition resolve_variants :: "(string \<Rightarrow> string) \<Rightarrow> string \<Rightarrow> Variant list \<Rightarrow> Variant list \<times> bool" where
  "resolve_variants ident url candidates =
     (case dedup_by var_unique_identifier [] candidates of
        [] \<Rightarrow> ([\<lparr>var_color = ''unknown'', var_shoe_size = ''unknown'',
                 var_unique_identifier = ident url\<rparr>], True)
      | v # vs \<Rightarrow> (v # vs, False))"

text \<open>Modelled from the spec: the aggregator's rule for prices: a candidate
  whose text \<open>parse_price\<close> refuses is "no price observation from this
  source"; an empty \<open>price_history\<close> is valid.\<close>

fun resolve_prices :: "(string \<times> bool) list \<Rightarrow> PriceObservation list" where
  "resolve_prices [] = []"
| "resolve_prices ((text, stock) # cs) =
     (case parse_price text of
        Inl e \<Rightarrow> resolve_prices cs
      | Inr p \<Rightarrow> \<lparr>po_price = p, po_is_in_stock = stock\<rparr> # resolve_prices cs)"

text \<open>Modelled from the spec: the aggregator's rule for images: "normalize
  every candidate via \<open>absolutize\<close>; drop any candidate for which
  \<open>absolutize\<close> fails with \<open>MalformedURL\<close>; deduplicate preserving order".
  Candidates are trimmed first, so that two that differ only by whitespace
  are one entry.\<close>

fun absolutize_all :: "string \<Rightarrow> string list \<Rightarrow> string list" where
  "absolutize_all base_origin [] = []"
| "absolutize_all base_origin (c # cs) =
     (case absolutize (trim c) base_origin of
        Inl e \<Rightarrow> absolutize_all base_origin cs
      | Inr url \<Rightarrow> url # absolutize_all base_origin cs)"

definition resolve_images :: "string \<Rightarrow> string list \<Rightarrow> string list" where
  "resolve_images base_origin candidates = dedup_by (\<lambda>u. u) [] (absolutize_all base_origin candidates)"

text \<open>Modelled from the spec: \<open>UnusableContent\<close>, "raw content is empty, not
  parseable as markup, or structurally unrecognizable as any known brand
  template". What counts as markup of a known template is the parameter
  \<open>recognised\<close>.\<close>

definition unusable_content :: "(string \<Rightarrow> bool) \<Rightarrow> string \<Rightarrow> bool" where
  "unusable_content recognised raw_content = (trim raw_content = [] \<or> \<not> recognised raw_content)"

text \<open>Modelled from the spec: \<open>extract(raw_content, base_origin, brand)\<close> of the
  missing pipeline: the content check, then the three extractions, each run
  on the same raw content, then the aggregator. The brands' parsers and the
  content check are parameters. (The name \<open>extract\<close> is a keyword of the
  prover, hence \<open>extract_core\<close>.)\<close>

definition extract_core ::
  "(string \<Rightarrow> bool) \<Rightarrow> (brand \<Rightarrow> brand_parser) \<Rightarrow> string \<Rightarrow> string \<Rightarrow> brand
     \<Rightarrow> extraction_error + ScrapeResult" where
  "extract_core recognised parsers raw_content base_origin b =
     (if unusable_content recognised raw_content then Inl UnusableContent
      else
        (let parser = parsers b;
             (vs, degraded) = resolve_variants (identifier_of_url parser) base_origin
                                (locate (locate_variants parser) raw_content base_origin);
             prices = resolve_prices (locate (locate_prices parser) raw_content base_origin);
             imgs = resolve_images base_origin (locate (locate_images parser) raw_content base_origin)
         in Inr \<lparr>sr_variants = vs, sr_price_history = prices, sr_images = imgs,
                  sr_degraded = degraded\<rparr>))"

section \<open>Example states\<close>

text \<open>
  The state the repository tests build for \<open>GetLatestPrice\<close>: one product, one
  variant, one country, and three prices recorded ten milliseconds apart.
\<close>

definition puma_db :: database where
  "puma_db =
     \<lparr>products = [\<lparr>p_ID = 1, p_BrandName = ''Puma'', p_ShoeName = ''Suede'',
                    p_BaseURL = ''https://example.com/puma/suede'', p_CreatedAt = 1000\<rparr>],
      countries = [\<lparr>c_ID = 1, c_CountryCode = ''IN'', c_Currency = ''INR''\<rparr>],
      product_variants = [\<lparr>v_ID = 1, v_ProductID = 1, v_Color = ''Black'', v_ShoeSize = ''9.5'',
                            v_UniqueIdentifier = ''1_Black_9.5''\<rparr>],
      price_history =
        [\<lparr>ph_ID = 1, ph_VariantID = 1, ph_CountryID = 1, ph_Price = 5000, ph_IsInStock = True,
           ph_CapturedAt = 10000\<rparr>,
         \<lparr>ph_ID = 2, ph_VariantID = 1, ph_CountryID = 1, ph_Price = 5500, ph_IsInStock = True,
           ph_CapturedAt = 20000\<rparr>,
         \<lparr>ph_ID = 3, ph_VariantID = 1, ph_CountryID = 1, ph_Price = 5200, ph_IsInStock = True,
           ph_CapturedAt = 30000\<rparr>],
      product_variants_id_seq = 2,
      price_history_id_seq = 4\<rparr>"

text \<open>The state of the product repository's update test: one product, whose
  brand name the test then changes.\<close>

definition nike_db :: database where
  "nike_db =
     \<lparr>products = [\<lparr>p_ID = 1, p_BrandName = ''Nike'', p_ShoeName = ''Air Force 1'',
                    p_BaseURL = ''https://example.com/nike/af1'', p_CreatedAt = 1000\<rparr>],
      countries = [],
      product_variants = [],
      price_history = [],
      product_variants_id_seq = 1,
      price_history_id_seq = 1\<rparr>"

text \<open>
  A brand parser for the examples: on the page \<open><html>shoe</html>\<close> its
  structured block gives one image that is empty, one that is protocol-relative
  and one that is path-relative twice over, a price text without digits and
  the README's price; no tier finds a variant. The identifier of a URL is
  what follows its last slash.
\<close>

definition demo_page :: string where
  "demo_page = ''<html>shoe</html>''"

definition demo_parser :: brand_parser where
  "demo_parser =
     \<lparr>locate_variants = \<lparr>preferred_tier = (\<lambda>raw base. []), fallback_tier = (\<lambda>raw base. [])\<rparr>,
      locate_prices =
        \<lparr>preferred_tier = (\<lambda>raw base. if raw = demo_page then [(''N/A'', False), (''$145.00'', True)] else []),
         fallback_tier = (\<lambda>raw base. [])\<rparr>,
      locate_images =
        \<lparr>preferred_tier = (\<lambda>raw base. if raw = demo_page
                                       then ['' '', ''//cdn.example.com/a.jpg'', ''/a/b.jpg'', '' /a/b.jpg '']
                                       else []),
         fallback_tier = (\<lambda>raw base. [])\<rparr>,
      identifier_of_url = (\<lambda>url. rev (takeWhile (\<lambda>c. c \<noteq> CHR ''/'') (rev url)))\<rparr>"

section \<open>The latest price\<close>

lemma select_latest_empty:
  "filter (\<lambda>h. ph_VariantID h = v \<and> ph_CountryID h = c) rows = [] \<Longrightarrow> select_latest rows v c = []"
  by (simp add: select_latest_def)

lemma select_latest_head:
  assumes "filter (\<lambda>h. ph_VariantID h = v \<and> ph_CountryID h = c) rows \<noteq> []"
  shows "\<exists>h. select_latest rows v c = [h] \<and> h \<in> set rows \<and> ph_VariantID h = v \<and> ph_CountryID h = c
           \<and> (\<forall>h' \<in> set rows. ph_VariantID h' = v \<and> ph_CountryID h' = c \<longrightarrow> ph_CapturedAt h' \<le> ph_CapturedAt h)"
proof -
  define ms where "ms = filter (\<lambda>h. ph_VariantID h = v \<and> ph_CountryID h = c) rows"
  define ss where "ss = sort_key (\<lambda>h. - ph_CapturedAt h) ms"
  have set_ss: "set ss = set ms" by (simp add: ss_def)
  have "ms \<noteq> []" using assms by (simp add: ms_def)
  then have "ss \<noteq> []" using set_ss by (metis set_empty)
  then obtain h t where ht: "ss = h # t" by (cases ss) auto
  have srt: "sorted (map (\<lambda>h. - ph_CapturedAt h) ss)" by (simp add: ss_def)
  have sel: "select_latest rows v c = [h]"
    by (simp add: select_latest_def ms_def[symmetric] ss_def[symmetric] ht)
  have hin: "h \<in> set ms" using set_ss ht by auto
  have mx: "ph_CapturedAt h' \<le> ph_CapturedAt h" if "h' \<in> set ms" for h'
  proof -
    from that set_ss ht have "h' = h \<or> h' \<in> set t" by auto
    then show ?thesis using srt ht by auto
  qed
  show ?thesis using sel hin mx by (auto simp: ms_def)
qed

text \<open>
  C8, as amended. For a variant and a country identifier that fit \<open>INTEGER\<close>:
  whenever some row of \<open>price_history\<close> has the given variant and country,
  \<open>GetLatestPrice\<close> returns such a row, and no row for that variant and country
  has a later \<open>captured_at\<close>; when no row matches, it returns the error
  \<open>price history not found\<close>. For an identifier that does not fit
  \<open>INTEGER\<close> it returns the wrapped error \<open>failed to get latest price\<close>.
\<close>

theorem GetLatestPrice_latest:
  "(int4 variantID \<and> int4 countryID \<longrightarrow>
      ((\<exists>h \<in> set (price_history d). ph_VariantID h = variantID \<and> ph_CountryID h = countryID) \<longrightarrow>
        (\<exists>h. PriceHistoryRepository_GetLatestPrice d variantID countryID = Inr h
            \<and> h \<in> set (price_history d) \<and> ph_VariantID h = variantID \<and> ph_CountryID h = countryID
            \<and> (\<forall>h' \<in> set (price_history d). ph_VariantID h' = variantID \<and> ph_CountryID h' = countryID
                  \<longrightarrow> ph_CapturedAt h' \<le> ph_CapturedAt h)))
    \<and> (\<not> (\<exists>h \<in> set (price_history d). ph_VariantID h = variantID \<and> ph_CountryID h = countryID) \<longrightarrow>
        PriceHistoryRepository_GetLatestPrice d variantID countryID
          = Inl (Errorf ''price history not found'' None)))
   \<and> (\<not> (int4 variantID \<and> int4 countryID) \<longrightarrow>
        PriceHistoryRepository_GetLatestPrice d variantID countryID
          = Inl (Errorf ''failed to get latest price: '' (Some NumericValueOutOfRange)))"
proof (intro conjI impI)
  assume r: "int4 variantID \<and> int4 countryID"
  assume "\<exists>h \<in> set (price_history d). ph_VariantID h = variantID \<and> ph_CountryID h = countryID"
  then have "filter (\<lambda>h. ph_VariantID h = variantID \<and> ph_CountryID h = countryID) (price_history d) \<noteq> []"
    by (auto simp: filter_empty_conv)
  from select_latest_head[OF this] obtain h where
    "select_latest (price_history d) variantID countryID = [h]" and
    "h \<in> set (price_history d) \<and> ph_VariantID h = variantID \<and> ph_CountryID h = countryID
       \<and> (\<forall>h' \<in> set (price_history d). ph_VariantID h' = variantID \<and> ph_CountryID h' = countryID
             \<longrightarrow> ph_CapturedAt h' \<le> ph_CapturedAt h)" by blast
  then show "\<exists>h. PriceHistoryRepository_GetLatestPrice d variantID countryID = Inr h
          \<and> h \<in> set (price_history d) \<and> ph_VariantID h = variantID \<and> ph_CountryID h = countryID
          \<and> (\<forall>h' \<in> set (price_history d). ph_VariantID h' = variantID \<and> ph_CountryID h' = countryID
                \<longrightarrow> ph_CapturedAt h' \<le> ph_CapturedAt h)"
    using r by (simp add: PriceHistoryRepository_GetLatestPrice_def)
next
  assume r: "int4 variantID \<and> int4 countryID"
  assume "\<not> (\<exists>h \<in> set (price_history d). ph_VariantID h = variantID \<and> ph_CountryID h = countryID)"
  then have "filter (\<lambda>h. ph_VariantID h = variantID \<and> ph_CountryID h = countryID) (price_history d) = []"
    by (auto simp: filter_empty_conv)
  then show "PriceHistoryRepository_GetLatestPrice d variantID countryID
        = Inl (Errorf ''price history not found'' None)"
    using r by (simp add: PriceHistoryRepository_GetLatestPrice_def select_latest_empty)
next
  assume "\<not> (int4 variantID \<and> int4 countryID)"
  then show "PriceHistoryRepository_GetLatestPrice d variantID countryID
        = Inl (Errorf ''failed to get latest price: '' (Some NumericValueOutOfRange))"
    by (auto simp: PriceHistoryRepository_GetLatestPrice_def)
qed

lemma int4_examples: "int4 1" "int4 2" "\<not> int4 2147483648"
  by (simp_all add: int4_def)

theorem GetLatestPrice_latest_witness:
  "int4 1 \<and> int4 2 \<and> \<not> int4 2147483648
   \<and> (\<exists>h \<in> set (price_history puma_db). ph_VariantID h = 1 \<and> ph_CountryID h = 1)
   \<and> (\<exists>h. PriceHistoryRepository_GetLatestPrice puma_db 1 1 = Inr h \<and> ph_Price h = 5200
         \<and> (\<forall>h' \<in> set (price_history puma_db). ph_VariantID h' = 1 \<and> ph_CountryID h' = 1
               \<longrightarrow> ph_CapturedAt h' \<le> ph_CapturedAt h))
   \<and> \<not> (\<exists>h \<in> set (price_history puma_db). ph_VariantID h = 2 \<and> ph_CountryID h = 1)
   \<and> PriceHistoryRepository_GetLatestPrice puma_db 2 1 = Inl (Errorf ''price history not found'' None)
   \<and> PriceHistoryRepository_GetLatestPrice puma_db 2147483648 1
       = Inl (Errorf ''failed to get latest price: '' (Some NumericValueOutOfRange))"
  using GetLatestPrice_latest [of 1 1 puma_db] GetLatestPrice_latest [of 2 1 puma_db]
    GetLatestPrice_latest [of 2147483648 1 puma_db]
  by (simp add: int4_examples puma_db_def PriceHistoryRepository_GetLatestPrice_def select_latest_def)

text \<open>
  C8, as stated, fails: no row of the example state has the variant
  \<open>2147483648\<close>, which a Go \<open>int64\<close> holds and \<open>INTEGER\<close> does not, and the
  error returned for it is not \<open>price history not found\<close>.
\<close>

theorem GetLatestPrice_out_of_range:
  "filter (\<lambda>h. ph_VariantID h = 2147483648 \<and> ph_CountryID h = 1) (price_history puma_db) = []
   \<and> PriceHistoryRepository_GetLatestPrice puma_db 2147483648 1
       = Inl (Errorf ''failed to get latest price: '' (Some NumericValueOutOfRange))
   \<and> PriceHistoryRepository_GetLatestPrice puma_db 2147483648 1
       \<noteq> Inl (Errorf ''price history not found'' None)"
  by (simp add: int4_examples puma_db_def PriceHistoryRepository_GetLatestPrice_def)

section \<open>An update that names no field\<close>

lemma fmt_d_small: "fmt_d 1 = ''1''" "fmt_d 2 = ''2''" "fmt_d 3 = ''3''" "fmt_d 4 = ''4''"
  by code_simp+

lemma exec_update_syntax_error:
  "parse_update (lex query) = None \<Longrightarrow>
     exec_update tname columns coerce setcol rid check query args rows = Inl SyntaxError"
  by (simp add: exec_update_def)

lemma products_query_nil:
  "ProductRepository_Update_query i \<lparr>upr_BrandName = None, upr_ShoeName = None, upr_BaseURL = None\<rparr>
     = (''UPDATE products SE WHERE id = $1 RETURNING id, brand_name, shoe_name, base_url, created_at'',
        [VInt i])"
  by (simp add: ProductRepository_Update_query_def finish_update_def add_clause_def fmt_d_small)

lemma products_parse_nil:
  "parse_update (lex ''UPDATE products SE WHERE id = $1 RETURNING id, brand_name, shoe_name, base_url, created_at'') = None"
  by code_simp

lemma countries_query_nil:
  "CountryRepository_Update_query i \<lparr>ucr_CountryCode = None, ucr_Currency = None\<rparr>
     = (''UPDATE countries SE WHERE id = $1 RETURNING id, country_code, currency'', [VInt i])"
  by (simp add: CountryRepository_Update_query_def finish_update_def add_clause_def fmt_d_small)

lemma countries_parse_nil:
  "parse_update (lex ''UPDATE countries SE WHERE id = $1 RETURNING id, country_code, currency'') = None"
  by code_simp

lemma price_history_query_nil:
  "PriceHistoryRepository_Update_query i \<lparr>uhr_Price = None, uhr_IsInStock = None\<rparr>
     = (''UPDATE price_history SE WHERE id = $1 RETURNING id, variant_id, country_id, price, is_in_stock, captured_at'', [VInt i])"
  by (simp add: PriceHistoryRepository_Update_query_def finish_update_def add_clause_def fmt_d_small)

lemma price_history_parse_nil:
  "parse_update (lex ''UPDATE price_history SE WHERE id = $1 RETURNING id, variant_id, country_id, price, is_in_stock, captured_at'') = None"
  by code_simp

lemma product_variants_query_nil:
  "fst (ProductVariantRepository_Update_query cur i \<lparr>uvr_Color = None, uvr_ShoeSize = None\<rparr>)
     = ''UPDATE product_variants SET unique_identifier = $1 WHERE id = $2 RETURNING id, product_id, color, shoe_size, unique_identifier''"
  by (simp add: ProductVariantRepository_Update_query_def finish_update_def add_clause_def fmt_d_small Let_def)

lemma product_variants_parse_nil:
  "parse_update (lex ''UPDATE product_variants SET unique_identifier = $1 WHERE id = $2 RETURNING id, product_id, color, shoe_size, unique_identifier'')
    = Some \<lparr>u_table = ''product_variants'', u_sets = [(''unique_identifier'', 1)],
            u_where_column = ''id'', u_where_param = 2,
            u_returning = [''id'', ''product_id'', ''color'', ''shoe_size'', ''unique_identifier'']\<rparr>"
  by code_simp

text \<open>
  C10. With every optional field \<open>nil\<close>, \<open>Update\<close> on the product, country and
  price-history repositories returns an error and the database is unchanged,
  for every \<open>id\<close>: no clause was appended, so the two-character trim cuts
  \<open>SET\<close> to \<open>SE\<close> and the server refuses the statement. The statement that
  \<open>ProductVariantRepository.Update\<close> builds for such a request is well-formed,
  since it always carries the \<open>unique_identifier\<close> clause.
\<close>

theorem Update_all_nil_rejected:
  "ProductRepository_Update d id' \<lparr>upr_BrandName = None, upr_ShoeName = None, upr_BaseURL = None\<rparr>
     = (Inl (Errorf ''failed to update product: '' (Some SyntaxError)), d)
   \<and> CountryRepository_Update d id' \<lparr>ucr_CountryCode = None, ucr_Currency = None\<rparr>
     = (Inl (Errorf ''failed to update country: '' (Some SyntaxError)), d)
   \<and> PriceHistoryRepository_Update d id' \<lparr>uhr_Price = None, uhr_IsInStock = None\<rparr>
     = (Inl (Errorf ''failed to update price history: '' (Some SyntaxError)), d)
   \<and> take 18 (fst (ProductRepository_Update_query id'
        \<lparr>upr_BrandName = None, upr_ShoeName = None, upr_BaseURL = None\<rparr>)) = ''UPDATE products SE''
   \<and> parse_update (lex (fst (ProductVariantRepository_Update_query currentVariant id'
        \<lparr>uvr_Color = None, uvr_ShoeSize = None\<rparr>))) \<noteq> None"
proof (intro conjI)
  show "ProductRepository_Update d id' \<lparr>upr_BrandName = None, upr_ShoeName = None, upr_BaseURL = None\<rparr>
     = (Inl (Errorf ''failed to update product: '' (Some SyntaxError)), d)"
    by (simp add: ProductRepository_Update_def products_query_nil
        exec_update_syntax_error [OF products_parse_nil])
  show "CountryRepository_Update d id' \<lparr>ucr_CountryCode = None, ucr_Currency = None\<rparr>
     = (Inl (Errorf ''failed to update country: '' (Some SyntaxError)), d)"
    by (simp add: CountryRepository_Update_def countries_query_nil
        exec_update_syntax_error [OF countries_parse_nil])
  show "PriceHistoryRepository_Update d id' \<lparr>uhr_Price = None, uhr_IsInStock = None\<rparr>
     = (Inl (Errorf ''failed to update price history: '' (Some SyntaxError)), d)"
    by (simp add: PriceHistoryRepository_Update_def price_history_query_nil
        exec_update_syntax_error [OF price_history_parse_nil])
  show "take 18 (fst (ProductRepository_Update_query id'
        \<lparr>upr_BrandName = None, upr_ShoeName = None, upr_BaseURL = None\<rparr>)) = ''UPDATE products SE''"
    by (simp add: products_query_nil)
  show "parse_update (lex (fst (ProductVariantRepository_Update_query currentVariant id'
        \<lparr>uvr_Color = None, uvr_ShoeSize = None\<rparr>))) \<noteq> None"
    by (simp add: product_variants_query_nil product_variants_parse_nil)
qed

theorem Update_all_nil_rejected_witness:
  "ProductRepository_Update puma_db 1 \<lparr>upr_BrandName = None, upr_ShoeName = None, upr_BaseURL = None\<rparr>
     = (Inl (Errorf ''failed to update product: '' (Some SyntaxError)), puma_db)
   \<and> CountryRepository_Update puma_db 1 \<lparr>ucr_CountryCode = None, ucr_Currency = None\<rparr>
     = (Inl (Errorf ''failed to update country: '' (Some SyntaxError)), puma_db)
   \<and> PriceHistoryRepository_Update puma_db 3 \<lparr>uhr_Price = None, uhr_IsInStock = None\<rparr>
     = (Inl (Errorf ''failed to update price history: '' (Some SyntaxError)), puma_db)"
  using Update_all_nil_rejected [of puma_db 1 "hd (product_variants puma_db)"]
    Update_all_nil_rejected [of puma_db 3 "hd (product_variants puma_db)"]
  by simp

section \<open>Partial updates of a product\<close>










section \<open>The identifier of a variant\<close>

text \<open>
  C2. The claim is that two distinct variants of one product, each created by
  \<open>ProductVariantRepository.Create\<close>, have distinct \<open>unique_identifier\<close>
  strings. The code joins product, color and size with \<open>_\<close>, which does not
  tell where the color ends when a color or a size contains \<open>_\<close>: for one
  product, the color \<open>Black_White\<close> in size \<open>10\<close> and the color \<open>Black\<close> in
  size \<open>White_10\<close> pass \<open>UNIQUE(product_id, color, shoe_size)\<close>, are both
  created, and both get \<open>1_Black_White_10\<close>.
\<close>

theorem ProductVariantRepository_Create_identifier_clash:
  "fst (ProductVariantRepository_Create nike_db
          \<lparr>cvr_ProductID = 1, cvr_Color = ''Black_White'', cvr_ShoeSize = ''10''\<rparr>)
     = Inr \<lparr>v_ID = 1, v_ProductID = 1, v_Color = ''Black_White'', v_ShoeSize = ''10'',
             v_UniqueIdentifier = ''1_Black_White_10''\<rparr>
   \<and> fst (ProductVariantRepository_Create
          (snd (ProductVariantRepository_Create nike_db
                  \<lparr>cvr_ProductID = 1, cvr_Color = ''Black_White'', cvr_ShoeSize = ''10''\<rparr>))
          \<lparr>cvr_ProductID = 1, cvr_Color = ''Black'', cvr_ShoeSize = ''White_10''\<rparr>)
     = Inr \<lparr>v_ID = 2, v_ProductID = 1, v_Color = ''Black'', v_ShoeSize = ''White_10'',
             v_UniqueIdentifier = ''1_Black_White_10''\<rparr>"
  by (simp add: ProductVariantRepository_Create_def insert_product_variant_def nike_db_def
      product_variants_check_def fmt_d_small Let_def)

section \<open>The sign of a stored price\<close>

lemma price_history_parse_some:
  "parse_update (lex ''UPDATE price_history SET is_in_stock = $1 WHERE id = $2 RETURNING id, variant_id, country_id, price, is_in_stock, captured_at'')
     = Some \<lparr>u_table = ''price_history'', u_sets = [(''is_in_stock'', 1)],
             u_where_column = ''id'', u_where_param = 2, u_returning = price_history_columns\<rparr>"
  "parse_update (lex ''UPDATE price_history SET price = $1 WHERE id = $2 RETURNING id, variant_id, country_id, price, is_in_stock, captured_at'')
     = Some \<lparr>u_table = ''price_history'', u_sets = [(''price'', 1)],
             u_where_column = ''id'', u_where_param = 2, u_returning = price_history_columns\<rparr>"
  "parse_update (lex ''UPDATE price_history SET price = $1, is_in_stock = $2 WHERE id = $3 RETURNING id, variant_id, country_id, price, is_in_stock, captured_at'')
     = Some \<lparr>u_table = ''price_history'', u_sets = [(''price'', 1), (''is_in_stock'', 2)],
             u_where_column = ''id'', u_where_param = 3, u_returning = price_history_columns\<rparr>"
  by (simp_all only: price_history_columns_def) code_simp+

lemma numeric_10_2_of_minus_five: "numeric_10_2_of (- 5) = Inr (- 5)"
  by code_simp

text \<open>
  C3. The claim is that the price stored by every accepted \<open>Create\<close> and
  \<open>Update\<close> of the price-history repository is at least \<open>0\<close>.
  \<open>CreatePriceHistoryRequest\<close> declares \<open>validate:"required,min=0"\<close> on its
  price, but \<open>Create\<close> runs no validation and the column has no \<open>CHECK\<close>;
  \<open>UpdatePriceHistoryRequest\<close> does not even carry the tag. A \<open>Create\<close> with
  price \<open>-5\<close> is accepted and the row stored carries \<open>-5\<close>, and so is an
  \<open>Update\<close> of a stored row to \<open>-5\<close>.
\<close>

theorem negative_price_stored:
  "fst (PriceHistoryRepository_Create puma_db 40000
          \<lparr>chr_VariantID = 1, chr_CountryID = 1, chr_Price = - 5, chr_IsInStock = True\<rparr>)
     = Inr \<lparr>ph_ID = 4, ph_VariantID = 1, ph_CountryID = 1, ph_Price = - 5, ph_IsInStock = True,
             ph_CapturedAt = 40000\<rparr>
   \<and> fst (PriceHistoryRepository_Update puma_db 3 \<lparr>uhr_Price = Some (- 5), uhr_IsInStock = None\<rparr>)
     = Inr \<lparr>ph_ID = 3, ph_VariantID = 1, ph_CountryID = 1, ph_Price = - 5, ph_IsInStock = True,
             ph_CapturedAt = 30000\<rparr>"
  by (simp add: PriceHistoryRepository_Create_def insert_price_history_def
      PriceHistoryRepository_Update_def PriceHistoryRepository_Update_query_def
      finish_update_def add_clause_def fmt_d_small exec_update_def lookup_param_def
      numeric_10_2_def numeric_10_2_of_minus_five assign_all_def Let_def
      price_history_parse_some price_history_columns_def price_history_coerce_def
      price_history_set_def price_history_check_def puma_db_def)

section \<open>URL absolutization\<close>








section \<open>The variant fallback\<close>

lemma dedup_by_empty_iff: "dedup_by key [] xs = [] \<longleftrightarrow> xs = []"
  by (cases xs) simp_all

lemma locate_empty_iff:
  "locate fe raw base = [] \<longleftrightarrow> preferred_tier fe raw base = [] \<and> fallback_tier fe raw base = []"
  by (simp add: locate_def split: list.splits)

lemma resolve_variants_fallback:
  "resolve_variants ident url [] =
     ([\<lparr>var_color = ''unknown'', var_shoe_size = ''unknown'', var_unique_identifier = ident url\<rparr>], True)"
  by (simp add: resolve_variants_def)

lemma resolve_variants_found:
  "cs \<noteq> [] \<Longrightarrow> fst (resolve_variants ident url cs) \<noteq> [] \<and> \<not> snd (resolve_variants ident url cs)"
  by (cases cs) (simp_all add: resolve_variants_def)

lemma extract_core_usable:
  "\<not> unusable_content recognised raw \<Longrightarrow>
     extract_core recognised parsers raw base b =
       Inr \<lparr>sr_variants = fst (resolve_variants (identifier_of_url (parsers b)) base
                               (locate (locate_variants (parsers b)) raw base)),
            sr_price_history = resolve_prices (locate (locate_prices (parsers b)) raw base),
            sr_images = resolve_images base (locate (locate_images (parsers b)) raw base),
            sr_degraded = snd (resolve_variants (identifier_of_url (parsers b)) base
                               (locate (locate_variants (parsers b)) raw base))\<rparr>"
  by (simp add: extract_core_def Let_def split: prod.splits)

lemma extract_core_unusable:
  "unusable_content recognised raw \<Longrightarrow> extract_core recognised parsers raw base b = Inl UnusableContent"
  by (simp add: extract_core_def)

text \<open>
  C1. When the content is usable and neither tier of the variant extractor
  yields a candidate, the result has exactly one variant, with \<open>unknown\<close> for
  color and size and the identifier the brand derives from the input URL, and
  is marked degraded. Every result of a successful extraction has at least one
  variant, and it is marked degraded exactly when no tier yielded a candidate.
\<close>

theorem variants_fallback_invariant:
  "(\<not> unusable_content recognised raw_content
      \<and> preferred_tier (locate_variants (parsers b)) raw_content base_origin = []
      \<and> fallback_tier (locate_variants (parsers b)) raw_content base_origin = [] \<longrightarrow>
      (\<exists>r. extract_core recognised parsers raw_content base_origin b = Inr r
          \<and> sr_variants r = [\<lparr>var_color = ''unknown'', var_shoe_size = ''unknown'',
                               var_unique_identifier = identifier_of_url (parsers b) base_origin\<rparr>]
          \<and> sr_degraded r))
   \<and> (\<forall>r. extract_core recognised parsers raw_content base_origin b = Inr r \<longrightarrow>
          sr_variants r \<noteq> []
        \<and> (sr_degraded r \<longleftrightarrow>
             preferred_tier (locate_variants (parsers b)) raw_content base_origin = []
           \<and> fallback_tier (locate_variants (parsers b)) raw_content base_origin = []))"
proof (intro conjI impI allI)
  assume a: "\<not> unusable_content recognised raw_content
      \<and> preferred_tier (locate_variants (parsers b)) raw_content base_origin = []
      \<and> fallback_tier (locate_variants (parsers b)) raw_content base_origin = []"
  then have "locate (locate_variants (parsers b)) raw_content base_origin = []"
    by (simp add: locate_empty_iff)
  then show "\<exists>r. extract_core recognised parsers raw_content base_origin b = Inr r
          \<and> sr_variants r = [\<lparr>var_color = ''unknown'', var_shoe_size = ''unknown'',
                               var_unique_identifier = identifier_of_url (parsers b) base_origin\<rparr>]
          \<and> sr_degraded r"
    using a by (simp add: extract_core_usable resolve_variants_fallback)
next
  fix r
  assume r: "extract_core recognised parsers raw_content base_origin b = Inr r"
  then have u: "\<not> unusable_content recognised raw_content"
    by (auto simp: extract_core_def split: if_splits)
  let ?cs = "locate (locate_variants (parsers b)) raw_content base_origin"
  have v: "sr_variants r = fst (resolve_variants (identifier_of_url (parsers b)) base_origin ?cs)"
    and d: "sr_degraded r = snd (resolve_variants (identifier_of_url (parsers b)) base_origin ?cs)"
    using r by (auto simp: extract_core_usable [OF u])
  show "sr_variants r \<noteq> []"
    using v resolve_variants_found [of ?cs] by (cases "?cs = []") (simp_all add: resolve_variants_fallback)
  show "sr_degraded r \<longleftrightarrow>
             preferred_tier (locate_variants (parsers b)) raw_content base_origin = []
           \<and> fallback_tier (locate_variants (parsers b)) raw_content base_origin = []"
    using d resolve_variants_found [of ?cs]
    by (cases "?cs = []") (simp_all add: resolve_variants_fallback locate_empty_iff [symmetric])
qed

lemma demo_extraction:
  "extract_core (\<lambda>raw. CHR ''<'' \<in> set raw) (\<lambda>b. demo_parser) demo_page ''https://www.nike.com'' BrandA
     = Inr \<lparr>sr_variants = [\<lparr>var_color = ''unknown'', var_shoe_size = ''unknown'',
                             var_unique_identifier = ''www.nike.com''\<rparr>],
            sr_price_history = [\<lparr>po_price = 145, po_is_in_stock = True\<rparr>],
            sr_images = [''https://cdn.example.com/a.jpg'', ''https://www.nike.com/a/b.jpg''],
            sr_degraded = True\<rparr>"
  "\<not> unusable_content (\<lambda>raw. CHR ''<'' \<in> set raw) demo_page"
  "unusable_content (\<lambda>raw. CHR ''<'' \<in> set raw) ''   ''"
  "absolutize (trim '' '') ''https://www.nike.com'' = Inl MalformedURL"
  "parse_price ''N/A'' = Inl UnparsablePrice"
  by code_simp+

theorem variants_fallback_invariant_witness:
  "\<not> unusable_content (\<lambda>raw. CHR ''<'' \<in> set raw) demo_page
   \<and> preferred_tier (locate_variants demo_parser) demo_page ''https://www.nike.com'' = []
   \<and> fallback_tier (locate_variants demo_parser) demo_page ''https://www.nike.com'' = []
   \<and> (\<exists>r. extract_core (\<lambda>raw. CHR ''<'' \<in> set raw) (\<lambda>b. demo_parser) demo_page ''https://www.nike.com'' BrandA = Inr r
         \<and> sr_variants r = [\<lparr>var_color = ''unknown'', var_shoe_size = ''unknown'',
                              var_unique_identifier = ''www.nike.com''\<rparr>]
         \<and> sr_degraded r)"
proof -
  have t: "preferred_tier (locate_variants demo_parser) demo_page ''https://www.nike.com'' = []"
    "fallback_tier (locate_variants demo_parser) demo_page ''https://www.nike.com'' = []"
    by (simp_all add: demo_parser_def)
  have i: "identifier_of_url demo_parser ''https://www.nike.com'' = ''www.nike.com''"
    by (simp add: demo_parser_def)
  show ?thesis
    using t i demo_extraction(2)
      variants_fallback_invariant [of "\<lambda>raw. CHR ''<'' \<in> set raw" demo_page "\<lambda>b. demo_parser" BrandA
        "''https://www.nike.com''"]
    by simp
qed

section \<open>Error propagation\<close>

lemma dedup_by_keys: "key ` set (dedup_by key seen xs) = key ` set xs - set seen"
proof (induction xs arbitrary: seen)
  case Nil
  then show ?case by simp
next
  case (Cons x xs)
  show ?case
  proof (cases "key x \<in> set seen")
    case True
    then show ?thesis using Cons [of seen] by auto
  next
    case False
    then show ?thesis using Cons [of "key x # seen"] by auto
  qed
qed

lemma dedup_by_subset: "set (dedup_by key seen xs) \<subseteq> set xs"
proof (induction xs arbitrary: seen)
  case Nil
  then show ?case by simp
next
  case (Cons x xs)
  then show ?case using Cons [of seen] Cons [of "key x # seen"] by (cases "key x \<in> set seen") auto
qed

lemma distinct_dedup_by: "distinct (map key (dedup_by key seen xs))"
proof (induction xs arbitrary: seen)
  case Nil
  then show ?case by simp
next
  case (Cons x xs)
  show ?case
  proof (cases "key x \<in> set seen")
    case True
    then show ?thesis using Cons [of seen] by simp
  next
    case False
    have "key x \<notin> key ` set (dedup_by key (key x # seen) xs)"
      by (simp add: dedup_by_keys)
    then show ?thesis using False Cons [of "key x # seen"] by simp
  qed
qed

lemma set_dedup_by_self: "set (dedup_by (\<lambda>u. u) [] xs) = set xs"
  using dedup_by_keys [of "\<lambda>u. u" "[]" xs] by simp

lemma resolve_prices_drops:
  "resolve_prices cs =
     concat (map (\<lambda>(text, stock). case parse_price text of
                     Inl e \<Rightarrow> []
                   | Inr p \<Rightarrow> [\<lparr>po_price = p, po_is_in_stock = stock\<rparr>]) cs)"
  by (induction cs rule: resolve_prices.induct) (simp_all split: sum.splits)

lemma absolutize_all_drops:
  "absolutize_all base cs =
     concat (map (\<lambda>c. case absolutize (trim c) base of Inl e \<Rightarrow> [] | Inr url \<Rightarrow> [url]) cs)"
  by (induction cs) (simp_all split: sum.splits)

lemma set_resolve_images:
  "set (resolve_images base cs) = {url. \<exists>c \<in> set cs. absolutize (trim c) base = Inr url}"
  by (auto simp: resolve_images_def set_dedup_by_self absolutize_all_drops split: sum.splits)

text \<open>
  C7. The only error \<open>extract\<close> returns is \<open>UnusableContent\<close>, and it returns
  it only for unusable content. On usable content it returns a result: the
  price texts that \<open>parse_price\<close> refuses and the image candidates that
  \<open>absolutize\<close> refuses are left out, the others are all there, and a tier
  that finds nothing contributes the empty list.
\<close>

theorem only_unusable_content_fails:
  "(\<forall>e. extract_core recognised parsers raw_content base_origin b = Inl e \<longrightarrow>
        e = UnusableContent \<and> unusable_content recognised raw_content)
   \<and> (\<not> unusable_content recognised raw_content \<longrightarrow>
        (\<exists>r. extract_core recognised parsers raw_content base_origin b = Inr r
            \<and> sr_price_history r =
                concat (map (\<lambda>(text, stock). case parse_price text of
                                Inl e \<Rightarrow> []
                              | Inr p \<Rightarrow> [\<lparr>po_price = p, po_is_in_stock = stock\<rparr>])
                         (locate (locate_prices (parsers b)) raw_content base_origin))
            \<and> set (sr_images r) =
                {url. \<exists>c \<in> set (locate (locate_images (parsers b)) raw_content base_origin).
                        absolutize (trim c) base_origin = Inr url}
            \<and> distinct (sr_images r)))"
proof (rule conjI)
  show "\<forall>e. extract_core recognised parsers raw_content base_origin b = Inl e \<longrightarrow>
        e = UnusableContent \<and> unusable_content recognised raw_content"
    by (cases "unusable_content recognised raw_content")
       (simp_all add: extract_core_unusable extract_core_usable)
  have d: "distinct (resolve_images base_origin cs)" for cs
    using distinct_dedup_by [of "\<lambda>u. u" "[]" "absolutize_all base_origin cs"]
    by (simp add: resolve_images_def)
  show "\<not> unusable_content recognised raw_content \<longrightarrow>
        (\<exists>r. extract_core recognised parsers raw_content base_origin b = Inr r
            \<and> sr_price_history r =
                concat (map (\<lambda>(text, stock). case parse_price text of
                                Inl e \<Rightarrow> []
                              | Inr p \<Rightarrow> [\<lparr>po_price = p, po_is_in_stock = stock\<rparr>])
                         (locate (locate_prices (parsers b)) raw_content base_origin))
            \<and> set (sr_images r) =
                {url. \<exists>c \<in> set (locate (locate_images (parsers b)) raw_content base_origin).
                        absolutize (trim c) base_origin = Inr url}
            \<and> distinct (sr_images r))"
    by (simp add: extract_core_usable resolve_prices_drops [symmetric] set_resolve_images d)
qed

theorem only_unusable_content_fails_witness:
  "absolutize (trim '' '') ''https://www.nike.com'' = Inl MalformedURL
   \<and> parse_price ''N/A'' = Inl UnparsablePrice
   \<and> \<not> unusable_content (\<lambda>raw. CHR ''<'' \<in> set raw) demo_page
   \<and> (\<exists>r. extract_core (\<lambda>raw. CHR ''<'' \<in> set raw) (\<lambda>b. demo_parser) demo_page ''https://www.nike.com'' BrandA = Inr r
         \<and> sr_price_history r = [\<lparr>po_price = 145, po_is_in_stock = True\<rparr>]
         \<and> sr_images r = [''https://cdn.example.com/a.jpg'', ''https://www.nike.com/a/b.jpg''])
   \<and> unusable_content (\<lambda>raw. CHR ''<'' \<in> set raw) ''   ''
   \<and> extract_core (\<lambda>raw. CHR ''<'' \<in> set raw) (\<lambda>b. demo_parser) ''   '' ''https://www.nike.com'' BrandA
       = Inl UnusableContent"
proof -
  obtain r where r: "extract_core (\<lambda>raw. CHR ''<'' \<in> set raw) (\<lambda>b. demo_parser) demo_page ''https://www.nike.com'' BrandA = Inr r"
    using only_unusable_content_fails [of "\<lambda>raw. CHR ''<'' \<in> set raw" "\<lambda>b. demo_parser" demo_page
        "''https://www.nike.com''" BrandA] demo_extraction(2)
    by blast
  have "\<exists>e. extract_core (\<lambda>raw. CHR ''<'' \<in> set raw) (\<lambda>b. demo_parser) ''   '' ''https://www.nike.com'' BrandA = Inl e"
    using demo_extraction(3) by (simp add: extract_core_unusable)
  then have f: "extract_core (\<lambda>raw. CHR ''<'' \<in> set raw) (\<lambda>b. demo_parser) ''   '' ''https://www.nike.com'' BrandA
       = Inl UnusableContent"
    using only_unusable_content_fails [of "\<lambda>raw. CHR ''<'' \<in> set raw" "\<lambda>b. demo_parser" "''   ''"
        "''https://www.nike.com''" BrandA]
    by auto
  show ?thesis
    using r f demo_extraction by auto
qed

end
